theory Spec2Isabelle
  imports Complex_Main
begin

section \<open>Errors\<close>

text \<open>
  The source raises \<^verbatim>\<open>ValueError\<close> in every failing case. The three
  constructors keep apart the three situations the specification names: the check of
  line 27 of \<^verbatim>\<open>negative_binomial.py\<close>, a failed broadcast, and a failed
  validation of a declared constraint.
\<close>

datatype error = ConfigurationError | BroadcastError | ValidationError

definition bind_err :: "error + 'a \<Rightarrow> ('a \<Rightarrow> error + 'b) \<Rightarrow> error + 'b" where
  "bind_err m f = (case m of Inl e \<Rightarrow> Inl e | Inr x \<Rightarrow> f x)"

section \<open>The tensor substrate\<close>

text \<open>
  A tensor is its shape together with the value stored at each index. Elements are real
  numbers: rounding, infinities and NaN of the floating-point element types are outside
  this model. A Python number is the tensor of shape \<open>[]\<close>.
\<close>

type_synonym shape = "nat list"
type_synonym index = "nat list"

record tensor =
  tsize :: shape
  elem :: "index \<Rightarrow> real"

definition scalar :: "real \<Rightarrow> tensor" where
  "scalar x = \<lparr>tsize = [], elem = (\<lambda>i. x)\<rparr>"

definition vector :: "real list \<Rightarrow> tensor" where
  "vector xs = \<lparr>tsize = [length xs],
                 elem = (\<lambda>i. case i of [] \<Rightarrow> 0 | k # ks \<Rightarrow> if k < length xs then xs ! k else 0)\<rparr>"

text \<open>All indices of a shape, in row-major order.\<close>

fun indices :: "shape \<Rightarrow> index list" where
  "indices [] = [[]]"
| "indices (d # ds) = concat (map (\<lambda>k. map ((#) k) (indices ds)) [0..<d])"

text \<open>\<^verbatim>\<open>t.all()\<close> of an elementwise test.\<close>

definition all_elems :: "(real \<Rightarrow> bool) \<Rightarrow> tensor \<Rightarrow> bool" where
  "all_elems P t = list_all (\<lambda>i. P (elem t i)) (indices (tsize t))"

text \<open>
  Modelled from the spec: the broadcasting of shapes, which the source reaches through
  \<^verbatim>\<open>broadcast_all\<close> and the arithmetic of tensors (neither is under src/):
  trailing dimensions align, a dimension of size 1 expands, and incompatible shapes fail
  with \<open>BroadcastError\<close>. \<open>broadcast_dims\<close> works on the dimensions listed from the
  last one.
\<close>

fun broadcast_dims :: "shape \<Rightarrow> shape \<Rightarrow> error + shape" where
  "broadcast_dims [] ys = Inr ys"
| "broadcast_dims (x # xs) [] = Inr (x # xs)"
| "broadcast_dims (x # xs) (y # ys) =
     (case broadcast_dims xs ys of
        Inl e \<Rightarrow> Inl e
      | Inr zs \<Rightarrow>
          if x = y \<or> y = 1 then Inr (x # zs)
          else if x = 1 then Inr (y # zs)
          else Inl BroadcastError)"

definition broadcast_shapes :: "shape \<Rightarrow> shape \<Rightarrow> error + shape" where
  "broadcast_shapes a b =
     (case broadcast_dims (rev a) (rev b) of Inl e \<Rightarrow> Inl e | Inr zs \<Rightarrow> Inr (rev zs))"

text \<open>
  The index of the element of a tensor of shape \<open>s\<close> that index \<open>i\<close> of a broadcast
  result reads: the trailing components of \<open>i\<close>, with 0 in every dimension of size 1.
\<close>

fun source_dims :: "shape \<Rightarrow> index \<Rightarrow> index" where
  "source_dims (d # ds) (k # ks) = (if d = 1 then 0 else k) # source_dims ds ks"
| "source_dims ds ks = []"

definition source_index :: "shape \<Rightarrow> index \<Rightarrow> index" where
  "source_index s i = rev (source_dims (rev s) (rev i))"

definition broadcast_elem :: "tensor \<Rightarrow> index \<Rightarrow> real" where
  "broadcast_elem t i = elem t (source_index (tsize t) i)"

text \<open>\<^verbatim>\<open>t.expand(s)\<close>, for a shape \<open>s\<close> that the shape of \<open>t\<close> broadcasts to.\<close>

definition expand :: "tensor \<Rightarrow> shape \<Rightarrow> tensor" where
  "expand t s = \<lparr>tsize = s, elem = broadcast_elem t\<rparr>"

definition broadcast_all :: "tensor \<Rightarrow> tensor \<Rightarrow> error + tensor \<times> tensor" where
  "broadcast_all a b =
     (case broadcast_shapes (tsize a) (tsize b) of
        Inl e \<Rightarrow> Inl e
      | Inr s \<Rightarrow> Inr (expand a s, expand b s))"

text \<open>
  \<^verbatim>\<open>a.type_as(b)\<close> changes the element type only; the values stay, and the
  model has one element type.
\<close>

definition type_as :: "tensor \<Rightarrow> tensor \<Rightarrow> tensor" where
  "type_as a b = a"

text \<open>Elementwise operations: a unary one keeps the shape, a binary one broadcasts.\<close>

definition unop :: "(real \<Rightarrow> real) \<Rightarrow> tensor \<Rightarrow> tensor" where
  "unop f a = \<lparr>tsize = tsize a, elem = (\<lambda>i. f (elem a i))\<rparr>"

definition binop :: "(real \<Rightarrow> real \<Rightarrow> real) \<Rightarrow> tensor \<Rightarrow> tensor \<Rightarrow> error + tensor" where
  "binop f a b =
     (case broadcast_shapes (tsize a) (tsize b) of
        Inl e \<Rightarrow> Inl e
      | Inr s \<Rightarrow> Inr \<lparr>tsize = s, elem = (\<lambda>i. f (broadcast_elem a i) (broadcast_elem b i))\<rparr>)"

definition torch_add :: "tensor \<Rightarrow> tensor \<Rightarrow> error + tensor" where
  "torch_add = binop (+)"

definition torch_sub :: "tensor \<Rightarrow> tensor \<Rightarrow> error + tensor" where
  "torch_sub = binop (-)"

definition torch_mul :: "tensor \<Rightarrow> tensor \<Rightarrow> error + tensor" where
  "torch_mul = binop (*)"

definition torch_div :: "tensor \<Rightarrow> tensor \<Rightarrow> error + tensor" where
  "torch_div = binop (/)"

definition torch_neg :: "tensor \<Rightarrow> tensor" where
  "torch_neg = unop uminus"

definition torch_exp :: "tensor \<Rightarrow> tensor" where
  "torch_exp = unop exp"

definition sigmoid :: "real \<Rightarrow> real" where
  "sigmoid x = 1 / (1 + exp (- x))"

definition torch_sigmoid :: "tensor \<Rightarrow> tensor" where
  "torch_sigmoid = unop sigmoid"

definition logsigmoid :: "real \<Rightarrow> real" where
  "logsigmoid x = ln (sigmoid x)"

definition F_logsigmoid :: "tensor \<Rightarrow> tensor" where
  "F_logsigmoid = unop logsigmoid"

text \<open>
  What the numerics substrate supplies and HOL's \<open>Complex_Main\<close> does not define: the
  log-gamma function, and the bound \<open>eps\<close> of the clamp in the stable transform from
  probabilities to logits. Both are parameters of the model.
\<close>

record numerics =
  lgamma :: "real \<Rightarrow> real"
  eps :: real

definition torch_lgamma :: "numerics \<Rightarrow> tensor \<Rightarrow> tensor" where
  "torch_lgamma nu = unop (lgamma nu)"

text \<open>
  Modelled from the spec: \<^verbatim>\<open>probs_to_logits(probs, is_binary=True)\<close> and
  \<^verbatim>\<open>logits_to_probs(logits, is_binary=True)\<close> of \<^verbatim>\<open>torch.distributions.utils\<close>,
  which are not under src/. The first is the binary log-odds transform
  \<open>log p - log (1 - p)\<close> of the clamped probability, the second the sigmoid.
\<close>

definition clamp_probs :: "numerics \<Rightarrow> real \<Rightarrow> real" where
  "clamp_probs nu p = min (max p (eps nu)) (1 - eps nu)"

definition logit :: "numerics \<Rightarrow> real \<Rightarrow> real" where
  "logit nu p = ln (clamp_probs nu p) - ln (1 + - clamp_probs nu p)"

definition probs_to_logits :: "numerics \<Rightarrow> tensor \<Rightarrow> tensor" where
  "probs_to_logits nu = unop (logit nu)"

definition logits_to_probs :: "tensor \<Rightarrow> tensor" where
  "logits_to_probs = torch_sigmoid"

section \<open>Constraints\<close>

text \<open>
  Modelled from the spec: the constraints of \<^verbatim>\<open>torch.distributions.constraints\<close>
  that the class declares (the module is not under src/), each with its elementwise test:
  \<open>total_count \<ge> 0\<close>, \<open>0 \<le> probs < 1\<close>, and the non-negative integers of the support.
\<close>

datatype constraint =
  greater_than_eq real
| half_open_interval real real
| nonnegative_integer

fun check :: "constraint \<Rightarrow> real \<Rightarrow> bool" where
  "check (greater_than_eq lb) x = (lb \<le> x)"
| "check (half_open_interval lb ub) x = (lb \<le> x \<and> x < ub)"
| "check nonnegative_integer x = (frac x = 0 \<and> 0 \<le> x)"

text \<open>Lines 22 to 24 of the source.\<close>

definition arg_constraints :: "(string \<times> constraint) list" where
  "arg_constraints =
     [(''total_count'', greater_than_eq 0), (''probs'', half_open_interval 0 1)]"

definition support :: constraint where
  "support = nonnegative_integer"

section \<open>The Gamma distribution\<close>

text \<open>
  Modelled from the spec: the distribution object \<open>Gamma(concentration, rate)\<close> of
  \<^verbatim>\<open>torch.distributions\<close>, which is not under src/. Its two parameters are
  broadcast to a common shape, which is its batch shape.
\<close>

record Gamma =
  concentration :: tensor
  rate :: tensor
  Gamma_batch_shape :: shape

definition Gamma_init :: "tensor \<Rightarrow> tensor \<Rightarrow> error + Gamma" where
  "Gamma_init c r =
     bind_err (broadcast_all c r)
       (\<lambda>(c', r'). Inr \<lparr>concentration = c', rate = r', Gamma_batch_shape = tsize c'\<rparr>)"

section \<open>The NegativeBinomial class\<close>

text \<open>
  An instance stores \<open>total_count\<close> and exactly one of \<open>probs\<close> and \<open>logits\<close>, the
  one \<^verbatim>\<open>__init__\<close> was given; \<^verbatim>\<open>self._param\<close> is that same tensor. The
  other one is a lazy property: its value is a function of the stored one, so the model
  computes it at each read and leaves the cache out. The lazy property
  \<^verbatim>\<open>_gamma\<close> is different: the gradient mode its value is computed under depends on
  whether it is cached, so the instance has the slot \<open>cached_gamma\<close>, empty after
  \<^verbatim>\<open>__init__\<close>.
\<close>

datatype parametrization = Probs tensor | Logits tensor

record NegativeBinomial =
  total_count :: tensor
  param :: parametrization
  batch_shape :: shape
  validate_args :: bool
  cached_gamma :: "Gamma option"

fun param_tensor :: "parametrization \<Rightarrow> tensor" where
  "param_tensor (Probs p) = p"
| "param_tensor (Logits l) = l"

text \<open>
  The attributes that \<^verbatim>\<open>__init__\<close> has set on the instance, by name. A lazy
  property that was not given is not among them.
\<close>

definition stored :: "NegativeBinomial \<Rightarrow> string \<Rightarrow> tensor option" where
  "stored self name =
     (if name = ''total_count'' then Some (total_count self)
      else if name = ''probs'' then
        (case param self of Probs p \<Rightarrow> Some p | Logits l \<Rightarrow> None)
      else None)"

definition args_valid :: "NegativeBinomial \<Rightarrow> bool" where
  "args_valid self =
     list_all
       (\<lambda>(name, c). case stored self name of None \<Rightarrow> True | Some t \<Rightarrow> all_elems (check c) t)
       arg_constraints"

text \<open>
  Modelled from the spec: \<^verbatim>\<open>Distribution.__init__\<close> of the base class, which is
  not under src/. It records the batch shape and the validation flag (validation is
  opt-in: an absent flag leaves it off) and, when validation is enabled, checks every
  declared constraint of a stored parameter, failing with \<open>ValidationError\<close>.
\<close>

definition Distribution_init ::
  "tensor \<Rightarrow> parametrization \<Rightarrow> shape \<Rightarrow> bool option \<Rightarrow> error + NegativeBinomial" where
  "Distribution_init tc pa bs va =
     (let self = \<lparr>total_count = tc, param = pa, batch_shape = bs,
                   validate_args = (case va of None \<Rightarrow> False | Some v \<Rightarrow> v),
      cached_gamma = None\<rparr>
      in if validate_args self \<and> \<not> args_valid self then Inl ValidationError else Inr self)"

text \<open>Lines 26 to 38 of the source.\<close>

definition NegativeBinomial_init ::
  "tensor \<Rightarrow> tensor option \<Rightarrow> tensor option \<Rightarrow> bool option \<Rightarrow> error + NegativeBinomial" where
  "NegativeBinomial_init tc probs_arg logits_arg va =
     (if (probs_arg = None) = (logits_arg = None) then Inl ConfigurationError
      else
        bind_err
          (case probs_arg of
             Some p \<Rightarrow>
               bind_err (broadcast_all tc p) (\<lambda>(tc', p'). Inr (type_as tc' p', Probs p'))
           | None \<Rightarrow>
               (case logits_arg of
                  Some l \<Rightarrow>
                    bind_err (broadcast_all tc l) (\<lambda>(tc', l'). Inr (type_as tc' l', Logits l'))
                | None \<Rightarrow> Inl ConfigurationError))
          (\<lambda>(tc', pa). Distribution_init tc' pa (tsize (param_tensor pa)) va))"

text \<open>The lazy properties, lines 51 to 57.\<close>

definition logits :: "numerics \<Rightarrow> NegativeBinomial \<Rightarrow> tensor" where
  "logits nu self = (case param self of Logits l \<Rightarrow> l | Probs p \<Rightarrow> probs_to_logits nu p)"

definition probs :: "NegativeBinomial \<Rightarrow> tensor" where
  "probs self = (case param self of Probs p \<Rightarrow> p | Logits l \<Rightarrow> logits_to_probs l)"

text \<open>Lines 43 to 49 and 59 to 61.\<close>

definition mean :: "numerics \<Rightarrow> NegativeBinomial \<Rightarrow> error + tensor" where
  "mean nu self = torch_mul (total_count self) (torch_exp (logits nu self))"

definition variance :: "numerics \<Rightarrow> NegativeBinomial \<Rightarrow> error + tensor" where
  "variance nu self =
     bind_err (mean nu self) (\<lambda>m. torch_div m (torch_sigmoid (torch_neg (logits nu self))))"

definition param_shape :: "NegativeBinomial \<Rightarrow> shape" where
  "param_shape self = tsize (param_tensor (param self))"

text \<open>Line 73 to 83. The support test is modelled from the spec:
  \<^verbatim>\<open>_validate_sample\<close> of the base class is not under src/; it checks that the
  value lies in the declared support.\<close>

definition validate_sample :: "tensor \<Rightarrow> bool" where
  "validate_sample v = all_elems (check support) v"

definition log_prob :: "numerics \<Rightarrow> NegativeBinomial \<Rightarrow> tensor \<Rightarrow> error + tensor" where
  "log_prob nu self v =
     (if validate_args self \<and> \<not> validate_sample v then Inl ValidationError
      else
        bind_err (torch_mul (total_count self) (F_logsigmoid (torch_neg (logits nu self))))
          (\<lambda>a. bind_err (torch_mul v (F_logsigmoid (logits nu self)))
          (\<lambda>b. bind_err (torch_add a b)
          (\<lambda>log_unnormalized_prob. bind_err (torch_add (total_count self) v)
          (\<lambda>c. bind_err (torch_add (scalar 1) v)
          (\<lambda>d. bind_err (torch_add (torch_neg (torch_lgamma nu c)) (torch_lgamma nu d))
          (\<lambda>e. bind_err (torch_add e (torch_lgamma nu (total_count self)))
          (\<lambda>log_normalization. torch_sub log_unnormalized_prob log_normalization))))))))"

section \<open>Sampling\<close>

text \<open>
  Modelled from the spec: the gradient mode of the autograd engine and the scoped region
  \<^verbatim>\<open>torch.no_grad()\<close> (not under src/). The state is the flag and a trace of the
  operations run so far, each with the flag it ran under; an operation records gradient
  history only when the flag is set. The region clears the flag on entry and restores
  the previous value on every exit, also when the body raised.
\<close>

record autograd =
  grad_enabled :: bool
  trace :: "(string \<times> bool) list"

definition run_op :: "string \<Rightarrow> autograd \<Rightarrow> autograd" where
  "run_op name st = st\<lparr>trace := trace st @ [(name, grad_enabled st)]\<rparr>"

definition no_grad :: "(autograd \<Rightarrow> 'a \<times> autograd) \<Rightarrow> autograd \<Rightarrow> 'a \<times> autograd" where
  "no_grad body st =
     (let prev = grad_enabled st;
          (r, st') = body (st\<lparr>grad_enabled := False\<rparr>)
      in (r, st'\<lparr>grad_enabled := prev\<rparr>))"

text \<open>
  Modelled from the spec: the samplers of the substrate, \<open>Gamma(concentration, rate)\<close>
  drawn at an explicit output shape and \<open>poisson\<close> drawing one value for each entry of
  its rate. The random draws themselves are parameters: \<open>gamma_draw\<close> and
  \<open>poisson_draw\<close> give the value drawn at an index from the parameters read there.
\<close>

record samplers =
  gamma_draw :: "index \<Rightarrow> real \<Rightarrow> real \<Rightarrow> real"
  poisson_draw :: "index \<Rightarrow> real \<Rightarrow> real"

definition Gamma_sample :: "samplers \<Rightarrow> Gamma \<Rightarrow> shape \<Rightarrow> autograd \<Rightarrow> tensor \<times> autograd" where
  "Gamma_sample rng g sample_shape st =
     (let s = sample_shape @ Gamma_batch_shape g
      in (\<lparr>tsize = s,
           elem = (\<lambda>i. gamma_draw rng i (elem (expand (concentration g) s) i)
                                        (elem (expand (rate g) s) i))\<rparr>,
          run_op ''Gamma.sample'' st))"

definition torch_poisson :: "samplers \<Rightarrow> tensor \<Rightarrow> autograd \<Rightarrow> tensor \<times> autograd" where
  "torch_poisson rng r st =
     (\<lparr>tsize = tsize r, elem = (\<lambda>i. poisson_draw rng i (elem r i))\<rparr>, run_op ''poisson'' st)"

text \<open>
  Modelled from the spec: the decorator \<^verbatim>\<open>lazy_property\<close> of
  \<^verbatim>\<open>torch.distributions.utils\<close> and the scoped region
  \<^verbatim>\<open>torch.enable_grad()\<close>, which are not under src/. A lazy property is computed
  at its first read and cached on the instance; a later read returns the cached value and
  computes nothing. The spec states the caching. The decorator moreover runs the wrapped
  function inside \<^verbatim>\<open>enable_grad\<close>, so that the cached value keeps its gradient
  history whatever the mode of its first reader; the region sets the flag on entry and
  restores the previous value on every exit. When the wrapped function raises, nothing is
  cached.
\<close>

definition enable_grad :: "(autograd \<Rightarrow> 'a \<times> autograd) \<Rightarrow> autograd \<Rightarrow> 'a \<times> autograd" where
  "enable_grad body st =
     (let prev = grad_enabled st;
          (r, st') = body (st\<lparr>grad_enabled := True\<rparr>)
      in (r, st'\<lparr>grad_enabled := prev\<rparr>))"

text \<open>The function that the decorator wraps, lines 64 to 66.\<close>

definition NegativeBinomial_gamma_wrapped ::
  "numerics \<Rightarrow> NegativeBinomial \<Rightarrow> autograd \<Rightarrow> (error + Gamma) \<times> autograd" where
  "NegativeBinomial_gamma_wrapped nu self st =
     (Gamma_init (total_count self) (torch_exp (torch_neg (logits nu self))),
      run_op ''_gamma'' st)"

text \<open>The lazy property \<^verbatim>\<open>_gamma\<close>, line 63: a read of \<^verbatim>\<open>self._gamma\<close>.\<close>

definition NegativeBinomial_gamma ::
  "numerics \<Rightarrow> NegativeBinomial \<Rightarrow> autograd
     \<Rightarrow> ((error + Gamma) \<times> NegativeBinomial) \<times> autograd" where
  "NegativeBinomial_gamma nu self st =
     (case cached_gamma self of
        Some g \<Rightarrow> ((Inr g, self), st)
      | None \<Rightarrow>
          (case enable_grad (NegativeBinomial_gamma_wrapped nu self) st of
             (Inl e, st') \<Rightarrow> ((Inl e, self), st')
           | (Inr g, st') \<Rightarrow> ((Inr g, self\<lparr>cached_gamma := Some g\<rparr>), st')))"

text \<open>
  Lines 68 to 71. The default of \<open>sample_shape\<close> is \<open>[]\<close>. The call returns its
  result together with the instance, whose slot the read of \<^verbatim>\<open>_gamma\<close> may
  have filled, and the state of the autograd engine.
\<close>

definition sample ::
  "samplers \<Rightarrow> numerics \<Rightarrow> NegativeBinomial \<Rightarrow> shape \<Rightarrow> autograd
     \<Rightarrow> (error + tensor) \<times> NegativeBinomial \<times> autograd" where
  "sample rng nu self sample_shape st =
     (case no_grad (\<lambda>st0.
             case NegativeBinomial_gamma nu self st0 of
               ((Inl e, self1), st1) \<Rightarrow> ((Inl e, self1), st1)
             | ((Inr g, self1), st1) \<Rightarrow>
                 (case Gamma_sample rng g sample_shape st1 of
                    (rate', st2) \<Rightarrow>
                      (case torch_poisson rng rate' st2 of
                         (r, st3) \<Rightarrow> ((Inr r, self1), st3)))) st of
        ((r, self'), st') \<Rightarrow> (r, self', st'))"

section \<open>Parameters of the examples\<close>

text \<open>
  The concrete instances below need values for the parameters of the model. The clamp
  bound is the machine epsilon of the 32-bit element type. The log-gamma parameter is the
  zero function: the examples evaluate it at 1 and 2 only, where log-gamma is 0. The draws
  of the samplers are fixed functions of the parameters read.
\<close>

definition example_numerics :: numerics where
  "example_numerics = \<lparr>lgamma = (\<lambda>x. 0), eps = 1 / 2 ^ 23\<rparr>"

definition example_samplers :: samplers where
  "example_samplers =
     \<lparr>gamma_draw = (\<lambda>i c r. c / r), poisson_draw = (\<lambda>i x. of_int \<bar>\<lfloor>x\<rfloor>\<bar>)\<rparr>"


definition example_state :: autograd where
  "example_state = \<lparr>grad_enabled = True, trace = []\<rparr>"

section \<open>Facts about broadcasting\<close>

lemma broadcast_dims_Nil2: "broadcast_dims xs [] = Inr xs"
  by (cases xs) simp_all

lemma broadcast_dims_commute: "broadcast_dims xs ys = broadcast_dims ys xs"
proof (induction xs ys rule: broadcast_dims.induct)
  case (1 ys)
  show ?case by (simp add: broadcast_dims_Nil2)
next
  case (2 x xs)
  show ?case by simp
next
  case (3 x xs y ys)
  then show ?case by (auto split: sum.splits)
qed

lemma broadcast_dims_same: "broadcast_dims xs xs = Inr xs"
  by (induction xs) simp_all

lemma broadcast_dims_absorb:
  "broadcast_dims xs ys = Inr zs \<Longrightarrow> broadcast_dims xs zs = Inr zs"
proof (induction xs ys arbitrary: zs rule: broadcast_dims.induct)
  case (1 ys)
  then show ?case by simp
next
  case (2 x xs)
  then show ?case by (simp add: broadcast_dims_same)
next
  case (3 x xs y ys)
  then show ?case by (auto split: sum.splits if_splits)
qed

lemma source_dims_absorb:
  "broadcast_dims xs ys = Inr zs \<Longrightarrow> source_dims xs (source_dims zs ks) = source_dims xs ks"
proof (induction xs ys arbitrary: zs ks rule: broadcast_dims.induct)
  case (1 ys)
  then show ?case by simp
next
  case (2 x xs)
  have "source_dims ds (source_dims ds ks) = source_dims ds ks" for ds
    by (induction ds ks rule: source_dims.induct) simp_all
  with 2 show ?case by simp
next
  case (3 x xs y ys)
  then show ?case
    by (cases ks) (auto split: sum.splits if_splits)
qed

lemma broadcast_shapes_commute: "broadcast_shapes a b = broadcast_shapes b a"
  by (simp add: broadcast_shapes_def broadcast_dims_commute)

lemma broadcast_shapes_same: "broadcast_shapes a a = Inr a"
  by (simp add: broadcast_shapes_def broadcast_dims_same)

lemma broadcast_shapes_absorb:
  "broadcast_shapes a b = Inr s \<Longrightarrow> broadcast_shapes a s = Inr s"
  by (auto simp: broadcast_shapes_def split: sum.splits dest: broadcast_dims_absorb)

lemma broadcast_shapes_absorb2:
  "broadcast_shapes a b = Inr s \<Longrightarrow> broadcast_shapes s a = Inr s"
  using broadcast_shapes_absorb [of a b s] by (simp add: broadcast_shapes_commute)

lemma source_index_absorb:
  "broadcast_shapes a b = Inr s \<Longrightarrow> source_index a (source_index s i) = source_index a i"
  by (auto simp: broadcast_shapes_def source_index_def split: sum.splits
      dest: source_dims_absorb)

lemma source_index_idem: "source_index s (source_index s i) = source_index s i"
  by (rule source_index_absorb [OF broadcast_shapes_same])

section \<open>Facts about elementwise operations\<close>

lemma broadcast_elem_mk: "broadcast_elem \<lparr>tsize = s, elem = g\<rparr> i = g (source_index s i)"
  by (simp add: broadcast_elem_def)

lemma broadcast_elem_unop: "broadcast_elem (unop f a) i = f (broadcast_elem a i)"
  by (simp add: broadcast_elem_def unop_def)

lemma tsize_unop: "tsize (unop f a) = tsize a"
  by (simp add: unop_def)

lemma broadcast_elem_absorb:
  "broadcast_shapes (tsize t) x = Inr s \<Longrightarrow>
   broadcast_elem t (source_index s i) = broadcast_elem t i"
  by (simp add: broadcast_elem_def source_index_absorb)

lemma broadcast_elem_absorb2:
  "broadcast_shapes x (tsize t) = Inr s \<Longrightarrow>
   broadcast_elem t (source_index s i) = broadcast_elem t i"
  using broadcast_elem_absorb [of t x s i] by (simp add: broadcast_shapes_commute)

lemma broadcast_elem_idem:
  "broadcast_elem t (source_index (tsize t) i) = broadcast_elem t i"
  by (simp add: broadcast_elem_def source_index_idem)

lemma elem_expand: "elem (expand t s) = broadcast_elem t"
  by (simp add: expand_def)

lemma tsize_expand: "tsize (expand t s) = s"
  by (simp add: expand_def)

lemma broadcast_elem_expand:
  "broadcast_shapes (tsize t) x = Inr s \<Longrightarrow> broadcast_elem (expand t s) = broadcast_elem t"
  by (rule ext) (simp add: expand_def broadcast_elem_mk broadcast_elem_absorb)

lemma broadcast_dims_error: "broadcast_dims xs ys = Inl e \<Longrightarrow> e = BroadcastError"
  by (induction xs ys rule: broadcast_dims.induct) (auto split: sum.splits if_splits)

lemma broadcast_shapes_error: "broadcast_shapes a b = Inl e \<Longrightarrow> e = BroadcastError"
  by (auto simp: broadcast_shapes_def split: sum.splits dest: broadcast_dims_error)

lemma binop_error: "binop f a b = Inl e \<Longrightarrow> e = BroadcastError"
  by (auto simp: binop_def split: sum.splits dest: broadcast_shapes_error)

lemma broadcast_shapes_Nil: "broadcast_shapes [] b = Inr b" "broadcast_shapes a [] = Inr a"
  by (simp_all add: broadcast_shapes_def broadcast_dims_Nil2)

lemma indices_bounds: "i \<in> set (indices s) \<Longrightarrow> list_all2 (<) i s"
  by (induction s arbitrary: i) auto

lemma source_dims_valid: "list_all2 (<) ks ds \<Longrightarrow> source_dims ds ks = ks"
  by (induction rule: list_all2_induct) auto

lemma source_index_valid: "i \<in> set (indices s) \<Longrightarrow> source_index s i = i"
  by (simp add: source_index_def source_dims_valid indices_bounds)

lemma broadcast_elem_valid: "i \<in> set (indices (tsize t)) \<Longrightarrow> broadcast_elem t i = elem t i"
  by (simp add: broadcast_elem_def source_index_valid)

lemma all_elems_iff: "all_elems P t \<longleftrightarrow> (\<forall>i \<in> set (indices (tsize t)). P (elem t i))"
  by (simp add: all_elems_def list_all_iff)

section \<open>Facts about the sigmoid and the logit\<close>

lemma sigmoid_pos: "0 < sigmoid x"
  by (simp add: sigmoid_def add_pos_pos)

lemma sigmoid_less_1: "sigmoid x < 1"
  by (simp add: sigmoid_def add_pos_pos)

lemma sigmoid_alt: "sigmoid x = exp x / (1 + exp x)"
proof -
  have p: "0 < exp x" by simp
  then have "0 < 1 + exp x" by linarith
  then have n: "1 + exp x \<noteq> 0" by linarith
  show ?thesis
    unfolding sigmoid_def exp_minus using p n by (simp add: field_simps)
qed

lemma sigmoid_neg: "sigmoid (- x) = 1 - sigmoid x"
proof -
  have p: "0 < exp x" by simp
  then have "0 < 1 + exp x" by linarith
  then have n: "1 + exp x \<noteq> 0" by linarith
  have "sigmoid (- x) = 1 / (1 + exp x)" by (simp add: sigmoid_def)
  also have "\<dots> = 1 - exp x / (1 + exp x)" using n by (simp add: field_simps)
  finally show ?thesis by (simp add: sigmoid_alt)
qed

lemma exp_sigmoid: "exp x = sigmoid x / (1 - sigmoid x)"
proof -
  have p: "0 < exp x" by simp
  then have "0 < 1 + exp x" by linarith
  then have n: "1 + exp x \<noteq> 0" by linarith
  have "1 - sigmoid x = 1 / (1 + exp x)"
    unfolding sigmoid_alt using n by (simp add: field_simps)
  then show ?thesis
    using n by (simp add: sigmoid_alt)
qed

lemma clamp_probs_id: "eps nu \<le> p \<Longrightarrow> p \<le> 1 - eps nu \<Longrightarrow> clamp_probs nu p = p"
  by (simp add: clamp_probs_def)

lemma clamp_probs_range:
  "0 < eps nu \<Longrightarrow> eps nu \<le> 1 / 2 \<Longrightarrow> 0 < clamp_probs nu p \<and> clamp_probs nu p < 1"
  by (auto simp: clamp_probs_def min_def max_def)

lemma exp_logit:
  assumes "0 < eps nu" "eps nu \<le> 1 / 2"
  shows "exp (logit nu p) = clamp_probs nu p / (1 - clamp_probs nu p)"
proof -
  have r: "0 < clamp_probs nu p" "clamp_probs nu p < 1"
    using clamp_probs_range [OF assms] by simp_all
  then show ?thesis
    by (simp add: logit_def exp_diff)
qed

lemma sigmoid_logit:
  assumes "0 < eps nu" "eps nu \<le> 1 / 2"
  shows "sigmoid (logit nu p) = clamp_probs nu p"
proof -
  define c where "c = clamp_probs nu p"
  have r: "0 < c" "c < 1"
    using clamp_probs_range [OF assms, of p] by (simp_all add: c_def)
  have "exp (logit nu p) = c / (1 - c)"
    using exp_logit [OF assms, of p] by (simp add: c_def)
  then have "sigmoid (logit nu p) = (c / (1 - c)) / (1 + c / (1 - c))"
    by (simp add: sigmoid_alt)
  also have "\<dots> = c" using r by (simp add: field_simps)
  finally show ?thesis by (simp add: c_def)
qed

section \<open>Facts about construction\<close>

lemma init_config:
  "(pa = None) = (la = None) \<Longrightarrow> NegativeBinomial_init tc pa la va = Inl ConfigurationError"
  by (simp add: NegativeBinomial_init_def)

lemma init_probs:
  "NegativeBinomial_init tc (Some p) None va =
     (case broadcast_shapes (tsize tc) (tsize p) of
        Inl e \<Rightarrow> Inl e
      | Inr s \<Rightarrow> Distribution_init (expand tc s) (Probs (expand p s)) s va)"
  by (simp add: NegativeBinomial_init_def bind_err_def broadcast_all_def type_as_def tsize_expand
      split: sum.splits)

lemma init_logits:
  "NegativeBinomial_init tc None (Some l) va =
     (case broadcast_shapes (tsize tc) (tsize l) of
        Inl e \<Rightarrow> Inl e
      | Inr s \<Rightarrow> Distribution_init (expand tc s) (Logits (expand l s)) s va)"
  by (simp add: NegativeBinomial_init_def bind_err_def broadcast_all_def type_as_def tsize_expand
      split: sum.splits)

lemma init_cases:
  obtains (config) "(pa = None) = (la = None)"
  | (from_probs) p where "pa = Some p" "la = None"
  | (from_logits) l where "pa = None" "la = Some l"
  by (cases pa; cases la) auto

lemma Distribution_init_Inr:
  "Distribution_init tc pa bs va = Inr nb \<Longrightarrow>
   nb = \<lparr>total_count = tc, param = pa, batch_shape = bs, validate_args = (va = Some True),
      cached_gamma = None\<rparr>"
  by (auto simp: Distribution_init_def Let_def split: if_splits option.splits)

lemma Distribution_init_error: "Distribution_init tc pa bs va = Inl e \<Longrightarrow> e = ValidationError"
  by (auto simp: Distribution_init_def Let_def split: if_splits)

lemma Distribution_init_probs_iff:
  "Distribution_init tc' (Probs p') (tsize p') va = Inl ValidationError \<longleftrightarrow>
     va = Some True \<and>
     ((\<exists>i \<in> set (indices (tsize tc')). elem tc' i < 0) \<or>
      (\<exists>i \<in> set (indices (tsize p')). elem p' i < 0 \<or> 1 \<le> elem p' i))"
  by (auto simp: Distribution_init_def Let_def args_valid_def arg_constraints_def stored_def
      all_elems_iff not_le not_less split: option.splits)

lemma Distribution_init_logits_iff:
  "Distribution_init tc' (Logits l') (tsize l') va = Inl ValidationError \<longleftrightarrow>
     va = Some True \<and> (\<exists>i \<in> set (indices (tsize tc')). elem tc' i < 0)"
  by (auto simp: Distribution_init_def Let_def args_valid_def arg_constraints_def stored_def
      all_elems_iff not_le not_less split: option.splits)

lemma Distribution_init_total:
  "Distribution_init tc' pa bs va \<noteq> Inl ValidationError \<Longrightarrow>
   \<exists>nb. Distribution_init tc' pa bs va = Inr nb"
  by (auto simp: Distribution_init_def Let_def split: if_splits)

lemma init_Inr:
  assumes "NegativeBinomial_init tc pa la va = Inr nb"
  shows "\<exists>s x. broadcast_shapes (tsize tc) (tsize x) = Inr s \<and>
           total_count nb = expand tc s \<and> batch_shape nb = s \<and>
           validate_args nb = (va = Some True) \<and>
           (pa = Some x \<and> la = None \<and> param nb = Probs (expand x s) \<or>
            pa = None \<and> la = Some x \<and> param nb = Logits (expand x s))"
proof (cases pa la rule: init_cases)
  case config
  with assms show ?thesis by (simp add: init_config)
next
  case (from_probs p)
  with assms show ?thesis
    by (auto simp: init_probs split: sum.splits dest!: Distribution_init_Inr)
next
  case (from_logits l)
  with assms show ?thesis
    by (auto simp: init_logits split: sum.splits dest!: Distribution_init_Inr)
qed

lemma init_shapes:
  assumes "NegativeBinomial_init tc pa la va = Inr nb"
  shows "tsize (total_count nb) = batch_shape nb" "tsize (logits nu nb) = batch_shape nb"
    "tsize (probs nb) = batch_shape nb"
  using init_Inr [OF assms]
  by (auto simp: logits_def probs_def probs_to_logits_def logits_to_probs_def torch_sigmoid_def
      tsize_unop tsize_expand)

lemma init_valid_elems:
  assumes "NegativeBinomial_init tc pa la va = Inr nb" "i \<in> set (indices (batch_shape nb))"
  shows "broadcast_elem (total_count nb) i = elem (total_count nb) i"
    "broadcast_elem (logits nu nb) i = elem (logits nu nb) i"
    "broadcast_elem (probs nb) i = elem (probs nb) i"
  using assms(2) init_shapes [OF assms(1)] by (simp_all add: broadcast_elem_valid)

section \<open>Facts about the operations\<close>

lemma mean_Inr:
  assumes "NegativeBinomial_init tc pa la va = Inr nb"
  shows "mean nu nb = Inr \<lparr>tsize = batch_shape nb,
           elem = (\<lambda>i. broadcast_elem (total_count nb) i * exp (broadcast_elem (logits nu nb) i))\<rparr>"
  by (simp add: mean_def torch_mul_def torch_exp_def binop_def tsize_unop init_shapes [OF assms]
      broadcast_shapes_same broadcast_elem_unop)

lemma variance_Inr:
  assumes "NegativeBinomial_init tc pa la va = Inr nb"
  shows "variance nu nb = Inr \<lparr>tsize = batch_shape nb,
           elem = (\<lambda>i. broadcast_elem (total_count nb) i * exp (broadcast_elem (logits nu nb) i)
                        / sigmoid (- broadcast_elem (logits nu nb) i))\<rparr>"
proof -
  have a: "broadcast_elem (total_count nb) (source_index (batch_shape nb) i) =
        broadcast_elem (total_count nb) i" for i
    using broadcast_elem_idem [of "total_count nb" i] init_shapes [OF assms] by simp
  have b: "broadcast_elem (logits nu nb) (source_index (batch_shape nb) i) =
        broadcast_elem (logits nu nb) i" for i
    using broadcast_elem_idem [of "logits nu nb" i] init_shapes(2) [OF assms] by simp
  show ?thesis
    by (simp add: variance_def mean_Inr [OF assms] bind_err_def torch_div_def torch_sigmoid_def
        torch_neg_def binop_def tsize_unop init_shapes [OF assms] broadcast_shapes_same
        broadcast_elem_unop broadcast_elem_mk a b)
qed

lemma logits_probs_elem:
  assumes "param nb = Logits l"
  shows "elem (probs nb) i = sigmoid (elem (logits nu nb) i)"
  using assms by (simp add: probs_def logits_def logits_to_probs_def torch_sigmoid_def unop_def)

lemma probs_logits_elem:
  assumes "param nb = Probs p"
  shows "elem (logits nu nb) i = logit nu (elem (probs nb) i)"
  using assms by (simp add: probs_def logits_def probs_to_logits_def unop_def)

lemma odds_coincide:
  assumes "(\<exists>l. param nb = Logits l) \<or>
      0 < eps nu \<and> eps nu \<le> elem (probs nb) i \<and> elem (probs nb) i \<le> 1 - eps nu"
  shows "exp (elem (logits nu nb) i) = elem (probs nb) i / (1 - elem (probs nb) i)"
    and "sigmoid (- elem (logits nu nb) i) = 1 - elem (probs nb) i"
proof -
  have "exp (elem (logits nu nb) i) = elem (probs nb) i / (1 - elem (probs nb) i) \<and>
      sigmoid (elem (logits nu nb) i) = elem (probs nb) i"
  proof (cases "param nb")
    case (Logits l)
    have e: "elem (probs nb) i = sigmoid (elem (logits nu nb) i)"
      by (rule logits_probs_elem [OF Logits])
    show ?thesis
      unfolding e by (rule conjI [OF exp_sigmoid refl])
  next
    case (Probs p)
    with assms have r: "0 < eps nu" "eps nu \<le> elem (probs nb) i" "elem (probs nb) i \<le> 1 - eps nu"
      by auto
    then have h: "eps nu \<le> 1 / 2" by linarith
    have c: "clamp_probs nu (elem (probs nb) i) = elem (probs nb) i"
      using r by (simp add: clamp_probs_id)
    show ?thesis
      using exp_logit [OF r(1) h, of "elem (probs nb) i"]
        sigmoid_logit [OF r(1) h, of "elem (probs nb) i"]
      by (simp add: probs_logits_elem [OF Probs] c)
  qed
  then show "exp (elem (logits nu nb) i) = elem (probs nb) i / (1 - elem (probs nb) i)"
    and "sigmoid (- elem (logits nu nb) i) = 1 - elem (probs nb) i"
    by (simp_all add: sigmoid_neg)
qed

lemma log_prob_error:
  assumes "log_prob nu nb v = Inl e"
  shows "e = BroadcastError \<or> e = ValidationError \<and> validate_args nb \<and> \<not> validate_sample v"
proof (cases "validate_args nb \<and> \<not> validate_sample v")
  case True
  with assms show ?thesis by (simp add: log_prob_def)
next
  case False
  with assms have "e = BroadcastError"
    by (auto simp: log_prob_def bind_err_def torch_mul_def torch_add_def torch_sub_def
        split: sum.splits dest: binop_error)
  then show ?thesis ..
qed

lemma gamma_read_cached:
  "cached_gamma self = Some g \<Longrightarrow> NegativeBinomial_gamma nu self st = ((Inr g, self), st)"
  by (simp add: NegativeBinomial_gamma_def)

lemma gamma_read_first:
  assumes "cached_gamma self = None"
  shows "NegativeBinomial_gamma nu self st =
     (case Gamma_init (total_count self) (torch_exp (torch_neg (logits nu self))) of
        Inl e \<Rightarrow> ((Inl e, self), st\<lparr>trace := trace st @ [(''_gamma'', True)]\<rparr>)
      | Inr g \<Rightarrow> ((Inr g, self\<lparr>cached_gamma := Some g\<rparr>),
                  st\<lparr>trace := trace st @ [(''_gamma'', True)]\<rparr>))"
proof -
  have "enable_grad (NegativeBinomial_gamma_wrapped nu self) st =
      (Gamma_init (total_count self) (torch_exp (torch_neg (logits nu self))),
       st\<lparr>trace := trace st @ [(''_gamma'', True)]\<rparr>)"
    by (simp add: enable_grad_def NegativeBinomial_gamma_wrapped_def run_op_def)
  then show ?thesis
    using assms by (simp add: NegativeBinomial_gamma_def split: sum.splits)
qed

text \<open>
  What \<open>sample\<close> returns on any instance. In \<open>sample_success\<close>, \<open>first\<close> is the
  trace of the read of \<^verbatim>\<open>_gamma\<close>, and the draw is made from the cached or the
  freshly built distribution.
\<close>

lemma sample_failure:
  assumes "cached_gamma self = None"
    and "Gamma_init (total_count self) (torch_exp (torch_neg (logits nu self))) = Inl e"
  shows "sample rng nu self sample_shape st =
     (Inl e, self, st\<lparr>trace := trace st @ [(''_gamma'', True)]\<rparr>)"
proof -
  have "no_grad (\<lambda>st0.
             case NegativeBinomial_gamma nu self st0 of
               ((Inl e, self1), st1) \<Rightarrow> ((Inl e, self1), st1)
             | ((Inr g, self1), st1) \<Rightarrow>
                 (case Gamma_sample rng g sample_shape st1 of
                    (rate', st2) \<Rightarrow>
                      (case torch_poisson rng rate' st2 of
                         (r, st3) \<Rightarrow> ((Inr r, self1), st3)))) st =
      ((Inl e, self), st\<lparr>trace := trace st @ [(''_gamma'', True)]\<rparr>)"
    by (simp add: no_grad_def gamma_read_first [OF assms(1)] assms(2))
  then show ?thesis by (simp add: sample_def)
qed

lemma sample_success:
  assumes "cached_gamma self = Some g \<and> first = [] \<and> self' = self \<or>
      cached_gamma self = None \<and>
      Gamma_init (total_count self) (torch_exp (torch_neg (logits nu self))) = Inr g \<and>
      first = [(''_gamma'', True)] \<and> self' = self\<lparr>cached_gamma := Some g\<rparr>"
  shows "sample rng nu self sample_shape st =
     (Inr (fst (torch_poisson rng (fst (Gamma_sample rng g sample_shape st)) st)), self',
      st\<lparr>trace := trace st @ first @ [(''Gamma.sample'', False), (''poisson'', False)]\<rparr>)"
proof -
  have "no_grad (\<lambda>st0.
             case NegativeBinomial_gamma nu self st0 of
               ((Inl e, self1), st1) \<Rightarrow> ((Inl e, self1), st1)
             | ((Inr g, self1), st1) \<Rightarrow>
                 (case Gamma_sample rng g sample_shape st1 of
                    (rate', st2) \<Rightarrow>
                      (case torch_poisson rng rate' st2 of
                         (r, st3) \<Rightarrow> ((Inr r, self1), st3)))) st =
      ((Inr (fst (torch_poisson rng (fst (Gamma_sample rng g sample_shape st)) st)), self'),
       st\<lparr>trace := trace st @ first @ [(''Gamma.sample'', False), (''poisson'', False)]\<rparr>)"
    using assms
    by (auto simp: no_grad_def gamma_read_first gamma_read_cached Gamma_sample_def
        torch_poisson_def run_op_def Let_def)
  then show ?thesis by (simp add: sample_def)
qed

lemma init_no_cache:
  "NegativeBinomial_init tc pa la va = Inr nb \<Longrightarrow> cached_gamma nb = None"
  by (cases pa la rule: init_cases)
    (auto simp: init_config init_probs init_logits split: sum.splits
      dest!: Distribution_init_Inr)

lemma init_gamma:
  assumes "NegativeBinomial_init tc pa la va = Inr nb"
  shows "Gamma_init (total_count nb) (torch_exp (torch_neg (logits nu nb))) =
     Inr \<lparr>concentration = expand (total_count nb) (batch_shape nb),
          rate = expand (torch_exp (torch_neg (logits nu nb))) (batch_shape nb),
          Gamma_batch_shape = batch_shape nb\<rparr>"
  by (simp add: Gamma_init_def broadcast_all_def bind_err_def torch_exp_def torch_neg_def
      tsize_unop tsize_expand init_shapes [OF assms] broadcast_shapes_same)

lemma sample_Inr:
  assumes "NegativeBinomial_init tc pa la va = Inr nb"
  shows "\<exists>nb'. sample rng nu nb sample_shape st =
     (Inr \<lparr>tsize = sample_shape @ batch_shape nb,
           elem = (\<lambda>i. poisson_draw rng i
                     (gamma_draw rng i (broadcast_elem (total_count nb) i)
                        (exp (- broadcast_elem (logits nu nb) i))))\<rparr>,
      nb',
      st\<lparr>trace := trace st @ [(''_gamma'', True), (''Gamma.sample'', False), (''poisson'', False)]\<rparr>)"
proof -
  have T: "tsize (total_count nb) = batch_shape nb"
    and L: "tsize (logits nu nb) = batch_shape nb"
    using init_shapes [OF assms] by simp_all
  have a: "broadcast_elem (expand (total_count nb) (batch_shape nb)) = broadcast_elem (total_count nb)"
    using broadcast_elem_expand [of "total_count nb" "batch_shape nb" "batch_shape nb"]
    by (simp add: T broadcast_shapes_same)
  have b: "broadcast_elem (expand (torch_exp (torch_neg (logits nu nb))) (batch_shape nb)) =
      broadcast_elem (torch_exp (torch_neg (logits nu nb)))"
    using broadcast_elem_expand [of "torch_exp (torch_neg (logits nu nb))" "batch_shape nb"
        "batch_shape nb"]
    by (simp add: L torch_exp_def torch_neg_def tsize_unop broadcast_shapes_same)
  have c: "broadcast_elem (torch_exp (torch_neg (logits nu nb))) i =
      exp (- broadcast_elem (logits nu nb) i)" for i
    by (simp add: torch_exp_def torch_neg_def broadcast_elem_unop)
  show ?thesis
    using sample_success [of nb _ "[(''_gamma'', True)]" _ nu rng sample_shape st]
      init_no_cache [OF assms] init_gamma [OF assms, of nu]
    by (simp add: Gamma_sample_def torch_poisson_def elem_expand a b c Let_def)
qed

section \<open>Concrete tensors\<close>

lemma broadcast_elem_scalar: "broadcast_elem (scalar x) i = x"
  by (simp add: broadcast_elem_def scalar_def)

lemma broadcast_elem_expand_scalar: "broadcast_elem (expand (scalar x) s) i = x"
  by (simp add: broadcast_elem_def expand_def scalar_def)

lemma elem_expand_scalar: "elem (expand (scalar x) s) i = x"
  by (simp add: expand_def broadcast_elem_scalar)

lemma tsize_scalar: "tsize (scalar x) = []"
  by (simp add: scalar_def)

lemma tsize_vector: "tsize (vector xs) = [length xs]"
  by (simp add: vector_def)

lemma indices_2: "indices [2] = [[0], [1]]"
  by (simp add: numeral_2_eq_2)

section \<open>The claims\<close>

subsection \<open>C1: the value of \<open>log_prob\<close>\<close>

text \<open>
  C1. For an instance that \<^verbatim>\<open>__init__\<close> returned and a value whose shape broadcasts
  against the batch shape, and that lies in the support whenever validation is enabled,
  \<open>log_prob\<close> returns a tensor of the common shape whose entry at every index is
  \<open>log_unnorm - log_norm\<close>, with
  \<open>log_unnorm = total_count * log_sigmoid (- logits) + value * log_sigmoid logits\<close> and
  \<open>log_norm = - lgamma (total_count + value) + lgamma (1 + value) + lgamma total_count\<close>,
  each operand read at the position that broadcasting assigns to the index.
\<close>

theorem log_prob_formula:
  assumes init: "NegativeBinomial_init tc pa la va = Inr nb"
    and bc: "broadcast_shapes (batch_shape nb) (tsize v) = Inr s"
    and ok: "validate_args nb \<longrightarrow> validate_sample v"
  shows "log_prob nu nb v =
     Inr \<lparr>tsize = s,
          elem = (\<lambda>i. let n = broadcast_elem (total_count nb) i;
                          l = broadcast_elem (logits nu nb) i;
                          x = broadcast_elem v i
                      in (n * logsigmoid (- l) + x * logsigmoid l)
                         - (- lgamma nu (n + x) + lgamma nu (1 + x) + lgamma nu n))\<rparr>"
proof -
  have T: "tsize (total_count nb) = batch_shape nb" by (rule init_shapes(1) [OF init])
  have L: "tsize (logits nu nb) = batch_shape nb" by (rule init_shapes(2) [OF init])
  note bc' = bc [unfolded broadcast_shapes_commute [of "batch_shape nb"]]
  note sh = bc bc' broadcast_shapes_same broadcast_shapes_absorb [OF bc]
    broadcast_shapes_absorb2 [OF bc] broadcast_shapes_absorb [OF bc']
    broadcast_shapes_absorb2 [OF bc']
  have a1: "broadcast_elem (total_count nb) (source_index s i) = broadcast_elem (total_count nb) i" for i
    using broadcast_elem_absorb [of "total_count nb" "tsize v" s i] bc T by simp
  have a2: "broadcast_elem (logits nu nb) (source_index s i) = broadcast_elem (logits nu nb) i" for i
    using broadcast_elem_absorb [of "logits nu nb" "tsize v" s i] bc L by simp
  have a3: "broadcast_elem v (source_index s i) = broadcast_elem v i" for i
    using broadcast_elem_absorb [of v "batch_shape nb" s i] bc' by simp
  have a4: "broadcast_elem (total_count nb) (source_index (batch_shape nb) i) = broadcast_elem (total_count nb) i" for i
    using broadcast_elem_idem [of "total_count nb" i] T by simp
  have a5: "broadcast_elem (logits nu nb) (source_index (batch_shape nb) i) = broadcast_elem (logits nu nb) i" for i
    using broadcast_elem_idem [of "logits nu nb" i] L by simp
  have a6: "broadcast_elem v (source_index (tsize v) i) = broadcast_elem v i" for i
    by (rule broadcast_elem_idem)
  have s1: "broadcast_elem (scalar 1) i = 1" for i
    by (simp add: scalar_def broadcast_elem_def)
  have s2: "broadcast_shapes [] (tsize v) = Inr (tsize v)"
    by (simp add: broadcast_shapes_def)
  show ?thesis
    using ok
    by (simp add: log_prob_def bind_err_def torch_mul_def torch_add_def torch_sub_def
        torch_neg_def F_logsigmoid_def torch_lgamma_def binop_def tsize_unop T L sh
        broadcast_elem_unop broadcast_elem_mk a1 a2 a3 a4 a5 a6 s1 s2 scalar_def Let_def)
qed

text \<open>
  The theorem at \<open>total_count = 1\<close>, \<open>logits = 0\<close> and the values 0 and 1, with
  validation enabled: the log-probabilities of 0 and 1 are \<open>ln (1 / 2)\<close> and
  \<open>2 * ln (1 / 2)\<close>.
\<close>

theorem log_prob_formula_witness:
  "\<exists>nb r. NegativeBinomial_init (scalar 1) None (Some (scalar 0)) (Some True) = Inr nb \<and>
      log_prob example_numerics nb (vector [0, 1]) = Inr r \<and>
      tsize r = [2] \<and> elem r [0] = ln (1 / 2) \<and> elem r [1] = 2 * ln (1 / 2)"
proof -
  define nb where "nb = \<lparr>total_count = expand (scalar 1) [], param = Logits (expand (scalar 0) []),
    batch_shape = [], validate_args = True,
      cached_gamma = None\<rparr>"
  have i: "NegativeBinomial_init (scalar 1) None (Some (scalar 0)) (Some True) = Inr nb"
    by (simp add: nb_def init_logits tsize_scalar broadcast_shapes_Nil Distribution_init_def
        args_valid_def arg_constraints_def stored_def all_elems_def tsize_expand
        elem_expand_scalar)
  have b: "broadcast_shapes (batch_shape nb) (tsize (vector [0, 1])) = Inr [2]"
    by (simp add: nb_def tsize_vector broadcast_shapes_Nil)
  have v: "validate_args nb \<longrightarrow> validate_sample (vector [0, 1])"
    by (simp add: validate_sample_def support_def all_elems_def tsize_vector indices_2 vector_def)
  have e: "broadcast_elem (vector [0, 1]) [0] = 0" "broadcast_elem (vector [0, 1]) [Suc 0] = 1"
    by (simp_all add: broadcast_elem_def vector_def source_index_def)
  have l: "logsigmoid 0 = ln (1 / 2)"
    by (simp add: logsigmoid_def sigmoid_def)
  show ?thesis
    using log_prob_formula [OF i b v, of "example_numerics"] i
    by (simp add: nb_def logits_def broadcast_elem_expand_scalar e l example_numerics_def)
qed

subsection \<open>C2: \<open>sample\<close> draws a Gamma rate and then a Poisson value\<close>




subsection \<open>C3: mean and variance\<close>

text \<open>
  C3, as stated, fails. On an instance built from \<open>probs = 0\<close>, a value that the
  constraint \<open>0 \<le> probs < 1\<close> admits, the logits are the log-odds of the clamped
  probability \<open>eps\<close>, so the mean of \<open>total_count = 1\<close> is \<open>eps / (1 - eps)\<close>, while
  \<open>total_count * probs / (1 - probs)\<close> is 0.
\<close>

theorem mean_clamped_counterexample:
  "\<exists>nb m. NegativeBinomial_init (scalar 1) (Some (scalar 0)) None (Some True) = Inr nb \<and>
      mean example_numerics nb = Inr m \<and>
      elem m [] = 1 / (2 ^ 23 - 1) \<and>
      elem m [] \<noteq> elem (total_count nb) [] * elem (probs nb) [] / (1 - elem (probs nb) [])"
proof -
  define nb where "nb = \<lparr>total_count = expand (scalar 1) [], param = Probs (expand (scalar 0) []),
    batch_shape = [], validate_args = True,
      cached_gamma = None\<rparr>"
  have i: "NegativeBinomial_init (scalar 1) (Some (scalar 0)) None (Some True) = Inr nb"
    by (simp add: nb_def init_probs tsize_scalar broadcast_shapes_Nil Distribution_init_def
        args_valid_def arg_constraints_def stored_def all_elems_def tsize_expand
        elem_expand_scalar)
  have e: "0 < eps example_numerics" "eps example_numerics \<le> 1 / 2"
    by (simp_all add: example_numerics_def)
  have c: "clamp_probs example_numerics 0 = 1 / 2 ^ 23"
    by (simp add: clamp_probs_def example_numerics_def)
  have l: "broadcast_elem (logits example_numerics nb) [] = logit example_numerics 0"
    by (simp add: nb_def logits_def probs_to_logits_def broadcast_elem_unop
        broadcast_elem_expand_scalar)
  have "exp (logit example_numerics 0) = 1 / (2 ^ 23 - 1)"
    unfolding exp_logit [OF e] c by simp
  then show ?thesis
    using i
    by (simp add: mean_Inr [OF i] l)
      (simp add: nb_def broadcast_elem_expand_scalar probs_def elem_expand_scalar)
qed

text \<open>
  C3, amended. For an instance that \<^verbatim>\<open>__init__\<close> returned, \<open>mean\<close> and
  \<open>variance\<close> return tensors of the batch shape with
  \<open>mean = total_count * exp logits\<close> and \<open>variance = mean / sigmoid (- logits)\<close> at
  every index. At an index they equal \<open>total_count * probs / (1 - probs)\<close> and
  \<open>mean / (1 - probs)\<close> whenever the instance was built from logits, or was built from
  probs and the clamp leaves the entry unchanged, \<open>eps \<le> probs \<le> 1 - eps\<close>.
\<close>

theorem mean_variance_formulas:
  assumes "NegativeBinomial_init tc pa la va = Inr nb"
  shows "\<exists>m v. mean nu nb = Inr m \<and> variance nu nb = Inr v \<and>
     tsize m = batch_shape nb \<and> tsize v = batch_shape nb \<and>
     (\<forall>i \<in> set (indices (batch_shape nb)).
        elem m i = elem (total_count nb) i * exp (elem (logits nu nb) i) \<and>
        elem v i = elem m i / sigmoid (- elem (logits nu nb) i) \<and>
        ((\<exists>l. param nb = Logits l) \<or>
         0 < eps nu \<and> eps nu \<le> elem (probs nb) i \<and> elem (probs nb) i \<le> 1 - eps nu \<longrightarrow>
           elem m i = elem (total_count nb) i * elem (probs nb) i / (1 - elem (probs nb) i) \<and>
           elem v i = elem m i / (1 - elem (probs nb) i)))"
  by (simp add: mean_Inr [OF assms] variance_Inr [OF assms] init_valid_elems [OF assms]
      odds_coincide)

text \<open>
  The theorem at \<open>total_count = 1\<close> and \<open>probs = 1 / 2\<close>: the mean is 1 and the
  variance is 2.
\<close>

theorem mean_variance_formulas_witness:
  "\<exists>nb m v. NegativeBinomial_init (scalar 1) (Some (scalar (1 / 2))) None None = Inr nb \<and>
      mean example_numerics nb = Inr m \<and> variance example_numerics nb = Inr v \<and>
      elem m [] = 1 \<and> elem v [] = 2"
proof -
  define nb where "nb = \<lparr>total_count = expand (scalar 1) [],
    param = Probs (expand (scalar (1 / 2)) []), batch_shape = [], validate_args = False,
      cached_gamma = None\<rparr>"
  have i: "NegativeBinomial_init (scalar 1) (Some (scalar (1 / 2))) None None = Inr nb"
    by (simp add: nb_def init_probs tsize_scalar broadcast_shapes_Nil Distribution_init_def)
  obtain m v where mv: "mean example_numerics nb = Inr m" "variance example_numerics nb = Inr v"
    "\<forall>i \<in> set (indices (batch_shape nb)).
        elem m i = elem (total_count nb) i * exp (elem (logits example_numerics nb) i) \<and>
        elem v i = elem m i / sigmoid (- elem (logits example_numerics nb) i) \<and>
        ((\<exists>l. param nb = Logits l) \<or>
         0 < eps example_numerics \<and> eps example_numerics \<le> elem (probs nb) i \<and>
         elem (probs nb) i \<le> 1 - eps example_numerics \<longrightarrow>
           elem m i = elem (total_count nb) i * elem (probs nb) i / (1 - elem (probs nb) i) \<and>
           elem v i = elem m i / (1 - elem (probs nb) i))"
    using mean_variance_formulas [OF i, of example_numerics] by blast
  have b: "batch_shape nb = []" "elem (probs nb) [] = 1 / 2" "elem (total_count nb) [] = 1"
    by (simp_all add: nb_def probs_def elem_expand_scalar)
  have k: "[] \<in> set (indices (batch_shape nb))"
    by (simp add: b)
  have h: "0 < eps example_numerics \<and> eps example_numerics \<le> elem (probs nb) [] \<and>
      elem (probs nb) [] \<le> 1 - eps example_numerics"
    by (simp add: b example_numerics_def)
  have f: "elem m [] = elem (total_count nb) [] * elem (probs nb) [] / (1 - elem (probs nb) []) \<and>
      elem v [] = elem m [] / (1 - elem (probs nb) [])"
    using mv(3) k h by blast
  then have "elem m [] = 1" by (simp add: b)
  moreover from f this have "elem v [] = 2" by (simp add: b)
  ultimately show ?thesis using i mv(1,2) by blast
qed

subsection \<open>C4: the check of the two parametrizations\<close>

text \<open>
  C4. Construction fails with \<open>ConfigurationError\<close> exactly when both of \<open>probs\<close> and
  \<open>logits\<close> are given or neither is; when exactly one is given, that error is not
  raised.
\<close>

theorem configuration_error_iff:
  "NegativeBinomial_init tc pa la va = Inl ConfigurationError \<longleftrightarrow> (pa = None) = (la = None)"
proof (cases pa la rule: init_cases)
  case config
  then show ?thesis by (simp add: init_config)
next
  case (from_probs p)
  then show ?thesis
    by (auto simp: init_probs split: sum.splits
        dest: broadcast_shapes_error Distribution_init_error)
next
  case (from_logits l)
  then show ?thesis
    by (auto simp: init_logits split: sum.splits
        dest: broadcast_shapes_error Distribution_init_error)
qed

text \<open>The theorem with neither, with both, and with \<open>probs\<close> alone.\<close>

theorem configuration_error_iff_witness:
  "NegativeBinomial_init (scalar 1) None None None = Inl ConfigurationError \<and>
   NegativeBinomial_init (scalar 1) (Some (scalar (1 / 2))) (Some (scalar 0)) None
     = Inl ConfigurationError \<and>
   NegativeBinomial_init (scalar 1) (Some (scalar (1 / 2))) None None \<noteq> Inl ConfigurationError"
  using configuration_error_iff [of "scalar 1" None None None]
    configuration_error_iff [of "scalar 1" "Some (scalar (1 / 2))" "Some (scalar 0)" None]
    configuration_error_iff [of "scalar 1" "Some (scalar (1 / 2))" None None]
  by simp

subsection \<open>C5: validation errors\<close>

text \<open>
  C5. \<open>ValidationError\<close> is raised exactly when validation is enabled and a declared
  constraint is violated. At construction it is raised only with the flag set; when the
  arguments broadcast, it is raised exactly when the flag is set and some entry of the
  broadcast \<open>total_count\<close> is negative or, \<open>probs\<close> being given, some entry of the
  broadcast \<open>probs\<close> lies outside \<open>[0, 1)\<close>, and otherwise construction succeeds.
  The instance keeps the flag. \<open>log_prob\<close> raises it exactly when the instance
  validates and some entry of the value is not a non-negative integer.
\<close>

theorem validation_error_iff:
  "(NegativeBinomial_init tc pa la va = Inl ValidationError \<longrightarrow> va = Some True) \<and>
   (\<forall>nb. NegativeBinomial_init tc pa la va = Inr nb \<longrightarrow> validate_args nb = (va = Some True)) \<and>
   (\<forall>tc' p'. broadcast_all tc p = Inr (tc', p') \<longrightarrow>
      (NegativeBinomial_init tc (Some p) None va = Inl ValidationError \<longleftrightarrow>
         va = Some True \<and>
         (\<exists>i \<in> set (indices (tsize p')). elem tc' i < 0 \<or> elem p' i < 0 \<or> 1 \<le> elem p' i)) \<and>
      (NegativeBinomial_init tc (Some p) None va \<noteq> Inl ValidationError \<longrightarrow>
         (\<exists>nb. NegativeBinomial_init tc (Some p) None va = Inr nb))) \<and>
   (\<forall>tc' l'. broadcast_all tc l = Inr (tc', l') \<longrightarrow>
      (NegativeBinomial_init tc None (Some l) va = Inl ValidationError \<longleftrightarrow>
         va = Some True \<and> (\<exists>i \<in> set (indices (tsize l')). elem tc' i < 0)) \<and>
      (NegativeBinomial_init tc None (Some l) va \<noteq> Inl ValidationError \<longrightarrow>
         (\<exists>nb. NegativeBinomial_init tc None (Some l) va = Inr nb))) \<and>
   (log_prob nu self v = Inl ValidationError \<longleftrightarrow>
      validate_args self \<and>
      (\<exists>i \<in> set (indices (tsize v)). frac (elem v i) \<noteq> 0 \<or> elem v i < 0))"
proof (intro conjI allI impI)
  assume "NegativeBinomial_init tc pa la va = Inl ValidationError"
  then show "va = Some True"
    by (cases pa la rule: init_cases)
      (auto simp: init_config init_probs init_logits Distribution_init_def Let_def
        split: sum.splits if_splits option.splits dest: broadcast_shapes_error)
next
  fix nb assume "NegativeBinomial_init tc pa la va = Inr nb"
  then show "validate_args nb = (va = Some True)"
    using init_Inr by blast
next
  fix tc' p' assume b: "broadcast_all tc p = Inr (tc', p')"
  then obtain s where s: "broadcast_shapes (tsize tc) (tsize p) = Inr s"
    "tc' = expand tc s" "p' = expand p s"
    by (auto simp: broadcast_all_def split: sum.splits)
  have t: "tsize tc' = tsize p'" "s = tsize p'" by (simp_all add: s tsize_expand)
  have i: "NegativeBinomial_init tc (Some p) None va = Distribution_init tc' (Probs p') (tsize p') va"
    by (simp add: init_probs s tsize_expand)
  show "NegativeBinomial_init tc (Some p) None va = Inl ValidationError \<longleftrightarrow>
         va = Some True \<and>
         (\<exists>i \<in> set (indices (tsize p')). elem tc' i < 0 \<or> elem p' i < 0 \<or> 1 \<le> elem p' i)"
    unfolding i Distribution_init_probs_iff t(1) by blast
  show "\<exists>nb. NegativeBinomial_init tc (Some p) None va = Inr nb"
    if "NegativeBinomial_init tc (Some p) None va \<noteq> Inl ValidationError"
    using that unfolding i by (rule Distribution_init_total)
next
  fix tc' l' assume b: "broadcast_all tc l = Inr (tc', l')"
  then obtain s where s: "broadcast_shapes (tsize tc) (tsize l) = Inr s"
    "tc' = expand tc s" "l' = expand l s"
    by (auto simp: broadcast_all_def split: sum.splits)
  have t: "tsize tc' = tsize l'" by (simp_all add: s tsize_expand)
  have i: "NegativeBinomial_init tc None (Some l) va = Distribution_init tc' (Logits l') (tsize l') va"
    by (simp add: init_logits s tsize_expand)
  show "NegativeBinomial_init tc None (Some l) va = Inl ValidationError \<longleftrightarrow>
         va = Some True \<and> (\<exists>i \<in> set (indices (tsize l')). elem tc' i < 0)"
    unfolding i Distribution_init_logits_iff t ..
  show "\<exists>nb. NegativeBinomial_init tc None (Some l) va = Inr nb"
    if "NegativeBinomial_init tc None (Some l) va \<noteq> Inl ValidationError"
    using that unfolding i by (rule Distribution_init_total)
next
  have v: "validate_sample v \<longleftrightarrow> \<not> (\<exists>i \<in> set (indices (tsize v)). frac (elem v i) \<noteq> 0 \<or> elem v i < 0)"
    by (auto simp: validate_sample_def support_def all_elems_iff not_le)
  show "log_prob nu self v = Inl ValidationError \<longleftrightarrow>
      validate_args self \<and>
      (\<exists>i \<in> set (indices (tsize v)). frac (elem v i) \<noteq> 0 \<or> elem v i < 0)"
  proof
    assume "log_prob nu self v = Inl ValidationError"
    from log_prob_error [OF this] show "validate_args self \<and>
      (\<exists>i \<in> set (indices (tsize v)). frac (elem v i) \<noteq> 0 \<or> elem v i < 0)"
      by (simp add: v)
  next
    assume "validate_args self \<and>
      (\<exists>i \<in> set (indices (tsize v)). frac (elem v i) \<noteq> 0 \<or> elem v i < 0)"
    then show "log_prob nu self v = Inl ValidationError"
      by (simp add: log_prob_def v)
  qed
qed

text \<open>
  The theorem at \<open>total_count = -1\<close> and \<open>probs = 1 / 2\<close>: construction fails with
  validation enabled and succeeds with validation disabled, and \<open>log_prob\<close> of a
  validating instance rejects the value \<open>1 / 2\<close>.
\<close>

theorem validation_error_iff_witness:
  "NegativeBinomial_init (scalar (- 1)) (Some (scalar (1 / 2))) None (Some True)
     = Inl ValidationError \<and>
   (\<exists>nb. NegativeBinomial_init (scalar (- 1)) (Some (scalar (1 / 2))) None (Some False) = Inr nb) \<and>
   (\<exists>nb. NegativeBinomial_init (scalar (- 1)) (Some (scalar (1 / 2))) None None = Inr nb) \<and>
   log_prob example_numerics
     \<lparr>total_count = scalar 1, param = Logits (scalar 0), batch_shape = [], validate_args = True,
      cached_gamma = None\<rparr>
     (scalar (1 / 2)) = Inl ValidationError"
proof -
  have b: "broadcast_all (scalar (- 1)) (scalar (1 / 2)) =
      Inr (expand (scalar (- 1)) [], expand (scalar (1 / 2)) [])"
    by (simp add: broadcast_all_def tsize_scalar broadcast_shapes_Nil)
  have k: "\<exists>i \<in> set (indices (tsize (expand (scalar (1 / 2)) []))).
      elem (expand (scalar (- 1)) []) i < 0 \<or> elem (expand (scalar (1 / 2)) []) i < 0 \<or>
      1 \<le> elem (expand (scalar (1 / 2)) []) i"
    by (simp add: tsize_expand elem_expand_scalar)
  have v: "\<exists>i \<in> set (indices (tsize (scalar (1 / 2)))).
      frac (elem (scalar (1 / 2)) i) \<noteq> 0 \<or> elem (scalar (1 / 2)) i < 0"
    by (simp add: scalar_def frac_def)
  note t = validation_error_iff [of "scalar (- 1)" None None _ "scalar (1 / 2)" "scalar 0"
    example_numerics
    "\<lparr>total_count = scalar 1, param = Logits (scalar 0), batch_shape = [], validate_args = True,
      cached_gamma = None\<rparr>"
    "scalar (1 / 2)"]
  have 1: "NegativeBinomial_init (scalar (- 1)) (Some (scalar (1 / 2))) None (Some True)
      = Inl ValidationError"
    using t [of "Some True"] b k by blast
  have 2: "\<exists>nb. NegativeBinomial_init (scalar (- 1)) (Some (scalar (1 / 2))) None (Some False) = Inr nb"
    using t [of "Some False"] b by auto
  have 3: "\<exists>nb. NegativeBinomial_init (scalar (- 1)) (Some (scalar (1 / 2))) None None = Inr nb"
    using t [of None] b by auto
  have 4: "log_prob example_numerics
     \<lparr>total_count = scalar 1, param = Logits (scalar 0), batch_shape = [], validate_args = True,
      cached_gamma = None\<rparr>
     (scalar (1 / 2)) = Inl ValidationError"
    using t [of None] v by simp
  from 1 2 3 4 show ?thesis by blast
qed

subsection \<open>C6: sampling and the gradient mode\<close>

text \<open>
  C6, as stated, fails in its last part. On an instance fresh from
  \<^verbatim>\<open>__init__\<close>, \<open>sample\<close> is the first reader of the lazy property
  \<^verbatim>\<open>_gamma\<close>, and the decorator builds the internal Gamma distribution with
  gradient tracking enabled, inside the region that disabled it: the call does run an
  operation that records gradient history.
\<close>

theorem sample_gamma_tracked_counterexample:
  "\<exists>nb. NegativeBinomial_init (scalar 3) None (Some (scalar 0)) None = Inr nb \<and>
      (''_gamma'', True) \<in>
        set (trace (snd (snd (sample example_samplers example_numerics nb [] example_state))))"
proof -
  define nb where "nb = \<lparr>total_count = expand (scalar 3) [], param = Logits (expand (scalar 0) []),
    batch_shape = [], validate_args = False, cached_gamma = None\<rparr>"
  have i: "NegativeBinomial_init (scalar 3) None (Some (scalar 0)) None = Inr nb"
    by (simp add: nb_def init_logits tsize_scalar broadcast_shapes_Nil Distribution_init_def)
  have "(''_gamma'', True) \<in>
      set (trace (snd (snd (sample example_samplers example_numerics nb [] example_state))))"
    using sample_Inr [OF i, of example_samplers example_numerics "[]" example_state]
    by (auto simp: example_state_def)
  with i show ?thesis by blast
qed

text \<open>
  C6, amended. Whatever \<open>sample\<close> returns, a tensor or an error, the gradient mode after
  the call is the mode before it. The two draws, Gamma and then Poisson, run with
  gradient tracking disabled and are the last operations of a call that returns a tensor;
  a call that raises runs neither. The only other operation is the construction of the
  internal Gamma distribution: it runs, with tracking enabled, exactly when the instance
  has not cached it, and a call that returns a tensor leaves it cached, so that a later
  call runs the two draws only. A call that raises leaves the instance as it was.
\<close>

theorem sample_restores_grad_mode:
  assumes "sample rng nu self sample_shape st = (r, self', st')"
  shows "grad_enabled st' = grad_enabled st \<and>
     trace st' = trace st
       @ (if cached_gamma self = None then [(''_gamma'', True)] else [])
       @ (case r of Inl e \<Rightarrow> [] | Inr t \<Rightarrow> [(''Gamma.sample'', False), (''poisson'', False)]) \<and>
     (case r of
        Inl e \<Rightarrow> self' = self
      | Inr t \<Rightarrow> cached_gamma self' \<noteq> None \<and> (cached_gamma self \<noteq> None \<longrightarrow> self' = self))"
proof (cases "cached_gamma self")
  case (Some g)
  show ?thesis
    using assms sample_success [of self g "[]" self nu rng sample_shape st] Some
    by auto
next
  case None
  show ?thesis
  proof (cases "Gamma_init (total_count self) (torch_exp (torch_neg (logits nu self)))")
    case (Inl e)
    show ?thesis
      using assms sample_failure [OF None Inl, of rng sample_shape st] None by auto
  next
    case (Inr g)
    show ?thesis
      using assms None
        sample_success [of self g "[(''_gamma'', True)]" "self\<lparr>cached_gamma := Some g\<rparr>" nu rng
          sample_shape st] Inr
      by auto
  qed
qed

text \<open>
  The theorem from a state with tracking enabled, on three calls: the first call on an
  instance that \<^verbatim>\<open>__init__\<close> returned, a second call on the instance that the
  first call left, and a call on an instance whose \<open>total_count\<close> was reassigned to a
  shape that does not broadcast against \<open>logits\<close>, where the construction of the Gamma
  distribution raises inside both regions.
\<close>

theorem sample_restores_grad_mode_witness:
  "(\<exists>nb t nb' st' t' nb'' st''.
      NegativeBinomial_init (scalar 3) None (Some (scalar 0)) None = Inr nb \<and>
      sample example_samplers example_numerics nb [] example_state = (Inr t, nb', st') \<and>
      grad_enabled st' = True \<and>
      trace st' = [(''_gamma'', True), (''Gamma.sample'', False), (''poisson'', False)] \<and>
      sample example_samplers example_numerics nb' [] example_state = (Inr t', nb'', st'') \<and>
      grad_enabled st'' = True \<and>
      trace st'' = [(''Gamma.sample'', False), (''poisson'', False)]) \<and>
   sample example_samplers example_numerics
     \<lparr>total_count = vector [1, 2], param = Logits (vector [0, 0, 0]), batch_shape = [3],
        validate_args = False, cached_gamma = None\<rparr> [] example_state =
     (Inl BroadcastError,
      \<lparr>total_count = vector [1, 2], param = Logits (vector [0, 0, 0]), batch_shape = [3],
        validate_args = False, cached_gamma = None\<rparr>,
      \<lparr>grad_enabled = True, trace = [(''_gamma'', True)]\<rparr>)"
proof -
  define nb where "nb = \<lparr>total_count = expand (scalar 3) [], param = Logits (expand (scalar 0) []),
    batch_shape = [], validate_args = False, cached_gamma = None\<rparr>"
  define bad where "bad = \<lparr>total_count = vector [1, 2], param = Logits (vector [0, 0, 0]),
    batch_shape = [3], validate_args = False, cached_gamma = None\<rparr>"
  have i: "NegativeBinomial_init (scalar 3) None (Some (scalar 0)) None = Inr nb"
    by (simp add: nb_def init_logits tsize_scalar broadcast_shapes_Nil Distribution_init_def)
  obtain t nb' st' where
    1: "sample example_samplers example_numerics nb [] example_state = (Inr t, nb', st')"
    using sample_Inr [OF i, of example_samplers example_numerics "[]" example_state] by blast
  have 2: "grad_enabled st' = True \<and>
      trace st' = [(''_gamma'', True), (''Gamma.sample'', False), (''poisson'', False)] \<and>
      cached_gamma nb' \<noteq> None"
    using sample_restores_grad_mode [OF 1] init_no_cache [OF i]
    by (simp add: example_state_def)
  then obtain g where g: "cached_gamma nb' = Some g" by auto
  obtain t' nb'' st'' where
    3: "sample example_samplers example_numerics nb' [] example_state = (Inr t', nb'', st'')"
    using sample_success [of nb' g "[]" nb' example_numerics example_samplers "[]" example_state] g
    by simp
  have 4: "grad_enabled st'' = True \<and> trace st'' = [(''Gamma.sample'', False), (''poisson'', False)]"
    using sample_restores_grad_mode [OF 3] g
    by (simp add: example_state_def)
  have f: "Gamma_init (total_count bad) (torch_exp (torch_neg (logits example_numerics bad))) =
      Inl BroadcastError"
    by (simp add: bad_def Gamma_init_def broadcast_all_def broadcast_shapes_def bind_err_def
        logits_def torch_exp_def torch_neg_def tsize_unop tsize_vector)
  have c: "cached_gamma bad = None" by (simp add: bad_def)
  obtain r b st3 where
    5: "sample example_samplers example_numerics bad [] example_state = (r, b, st3)"
    using prod_cases3 by blast
  have r: "r = Inl BroadcastError"
    using 5 sample_failure [OF c f, of example_samplers "[]" example_state] by simp
  have "grad_enabled st3 = True \<and> trace st3 = [(''_gamma'', True)] \<and> b = bad"
    using sample_restores_grad_mode [OF 5] c r by (simp add: example_state_def)
  then have 6: "sample example_samplers example_numerics bad [] example_state =
      (Inl BroadcastError, bad, \<lparr>grad_enabled = True, trace = [(''_gamma'', True)]\<rparr>)"
    using 5 r by (cases st3) simp
  from i 1 2 3 4 have "\<exists>nb t nb' st' t' nb'' st''.
      NegativeBinomial_init (scalar 3) None (Some (scalar 0)) None = Inr nb \<and>
      sample example_samplers example_numerics nb [] example_state = (Inr t, nb', st') \<and>
      grad_enabled st' = True \<and>
      trace st' = [(''_gamma'', True), (''Gamma.sample'', False), (''poisson'', False)] \<and>
      sample example_samplers example_numerics nb' [] example_state = (Inr t', nb'', st'') \<and>
      grad_enabled st'' = True \<and>
      trace st'' = [(''Gamma.sample'', False), (''poisson'', False)]"
    by blast
  with 6 show ?thesis
    unfolding bad_def by blast
qed

subsection \<open>C7: the round trip from probs to logits and back\<close>

text \<open>
  C7. Build an instance from \<open>probs\<close>, read its \<open>logits\<close>, build a fresh instance from
  these and read its \<open>probs\<close>. At every index where the original probability lies in
  \<open>(0, 1)\<close>, the value read back differs from it by less than the clamp bound \<open>eps\<close>,
  and is equal to it when \<open>eps \<le> probs \<le> 1 - eps\<close>. The bound is taken with
  \<open>0 < eps \<le> 1 / 2\<close>; over the reals it is the whole of the tolerance.
\<close>

theorem probs_logits_roundtrip:
  assumes "NegativeBinomial_init tc (Some p) None va = Inr nb"
    and "NegativeBinomial_init tc' None (Some (logits nu nb)) va' = Inr nb'"
    and "0 < eps nu" "eps nu \<le> 1 / 2"
  shows "\<forall>i \<in> set (indices (batch_shape nb')).
     0 < broadcast_elem p i \<and> broadcast_elem p i < 1 \<longrightarrow>
       \<bar>elem (probs nb') i - broadcast_elem p i\<bar> < eps nu \<and>
       (eps nu \<le> broadcast_elem p i \<and> broadcast_elem p i \<le> 1 - eps nu \<longrightarrow>
          elem (probs nb') i = broadcast_elem p i)"
proof -
  obtain s where s: "broadcast_shapes (tsize tc) (tsize p) = Inr s"
    "param nb = Probs (expand p s)"
    using init_Inr [OF assms(1)] by auto
  obtain s' where s': "param nb' = Logits (expand (logits nu nb) s')"
    using init_Inr [OF assms(2)] by auto
  have "elem (probs nb') i = clamp_probs nu (broadcast_elem p i)" for i
    by (simp add: probs_def s' logits_to_probs_def torch_sigmoid_def unop_def elem_expand
        logits_def s probs_to_logits_def broadcast_elem_unop [unfolded unop_def]
        broadcast_elem_mk tsize_expand broadcast_elem_absorb2 [OF s(1)]
        sigmoid_logit [OF assms(3,4)])
  then show ?thesis
    using assms(3,4) by (auto simp: clamp_probs_def min_def max_def)
qed

text \<open>The theorem at \<open>probs = 1 / 4\<close>.\<close>

theorem probs_logits_roundtrip_witness:
  "\<exists>nb nb'. NegativeBinomial_init (scalar 1) (Some (scalar (1 / 4))) None None = Inr nb \<and>
      NegativeBinomial_init (scalar 1) None (Some (logits example_numerics nb)) None = Inr nb' \<and>
      elem (probs nb') [] = 1 / 4"
proof -
  define nb where "nb = \<lparr>total_count = expand (scalar 1) [],
    param = Probs (expand (scalar (1 / 4)) []), batch_shape = [], validate_args = False,
      cached_gamma = None\<rparr>"
  define nb' where "nb' = \<lparr>total_count = expand (scalar 1) [],
    param = Logits (expand (logits example_numerics nb) []), batch_shape = [],
    validate_args = False,
      cached_gamma = None\<rparr>"
  have i: "NegativeBinomial_init (scalar 1) (Some (scalar (1 / 4))) None None = Inr nb"
    by (simp add: nb_def init_probs tsize_scalar broadcast_shapes_Nil Distribution_init_def)
  have s: "tsize (logits example_numerics nb) = []"
    using init_shapes(2) [OF i] by (simp add: nb_def)
  have i': "NegativeBinomial_init (scalar 1) None (Some (logits example_numerics nb)) None = Inr nb'"
    by (simp add: nb'_def init_logits tsize_scalar s broadcast_shapes_Nil Distribution_init_def)
  have e: "0 < eps example_numerics" "eps example_numerics \<le> 1 / 2"
    by (simp_all add: example_numerics_def)
  have k: "[] \<in> set (indices (batch_shape nb'))"
    by (simp add: nb'_def)
  have p: "0 < broadcast_elem (scalar (1 / 4)) [] \<and> broadcast_elem (scalar (1 / 4)) [] < 1"
    "eps example_numerics \<le> broadcast_elem (scalar (1 / 4)) [] \<and>
     broadcast_elem (scalar (1 / 4)) [] \<le> 1 - eps example_numerics"
    by (simp_all add: broadcast_elem_scalar example_numerics_def)
  have "elem (probs nb') [] = broadcast_elem (scalar (1 / 4)) []"
    using probs_logits_roundtrip [OF i i' e] k p by blast
  then have "elem (probs nb') [] = 1 / 4"
    by (simp add: broadcast_elem_scalar)
  with i i' show ?thesis by blast
qed

subsection \<open>C8: the shapes of the example\<close>

text \<open>
  C8. With \<open>total_count\<close> of shape \<open>[3]\<close> and \<open>probs\<close> of shape \<open>[1]\<close>, construction
  fails only by validation, with the flag set, and otherwise yields an instance of batch
  shape \<open>[3]\<close> on which \<open>sample\<close> with the sample shape \<open>[2]\<close> returns a tensor of
  shape \<open>[2, 3]\<close>.
\<close>

theorem shapes_example:
  assumes "tsize tc = [3]" "tsize p = [1]"
  shows "case NegativeBinomial_init tc (Some p) None va of
           Inl e \<Rightarrow> e = ValidationError \<and> va = Some True
         | Inr nb \<Rightarrow> batch_shape nb = [3] \<and>
             (\<exists>r. fst (sample rng nu nb [2] st) = Inr r \<and> tsize r = [2, 3])"
proof (cases "NegativeBinomial_init tc (Some p) None va")
  case (Inl e)
  then show ?thesis
    using assms
    by (auto simp: init_probs broadcast_shapes_def Distribution_init_def Let_def
        split: if_splits option.splits)
next
  case (Inr nb)
  have "batch_shape nb = [3]"
    using init_Inr [OF Inr] assms by (auto simp: broadcast_shapes_def)
  moreover obtain nb' where "sample rng nu nb [2] st =
     (Inr \<lparr>tsize = [2] @ batch_shape nb,
           elem = (\<lambda>i. poisson_draw rng i
                     (gamma_draw rng i (broadcast_elem (total_count nb) i)
                        (exp (- broadcast_elem (logits nu nb) i))))\<rparr>,
      nb',
      st\<lparr>trace := trace st @ [(''_gamma'', True), (''Gamma.sample'', False), (''poisson'', False)]\<rparr>)"
    using sample_Inr [OF Inr] by blast
  ultimately show ?thesis
    by (simp add: Inr)
qed

text \<open>The theorem at \<open>total_count = [1, 2, 3]\<close> and \<open>probs = [1 / 2]\<close>.\<close>

theorem shapes_example_witness:
  "\<exists>nb r. NegativeBinomial_init (vector [1, 2, 3]) (Some (vector [1 / 2])) None None = Inr nb \<and>
      batch_shape nb = [3] \<and>
      fst (sample example_samplers example_numerics nb [2] example_state) = Inr r \<and>
      tsize r = [2, 3]"
proof -
  have a: "tsize (vector [1, 2, 3]) = [3]" "tsize (vector [1 / 2]) = [1]"
    by (simp_all add: tsize_vector)
  show ?thesis
    using shapes_example [OF a, of None example_samplers example_numerics example_state]
    by (auto split: sum.splits)
qed

subsection \<open>C9: \<open>param_shape\<close> is the batch shape\<close>

text \<open>
  C9. On every instance that \<^verbatim>\<open>__init__\<close> returned, \<open>param_shape\<close>, the shape of
  the stored parameter, equals the batch shape recorded at construction.
\<close>

theorem param_shape_is_batch_shape:
  "NegativeBinomial_init tc pa la va = Inr nb \<Longrightarrow> param_shape nb = batch_shape nb"
  by (drule init_Inr) (auto simp: param_shape_def tsize_expand)

text \<open>The theorem at \<open>total_count = [1, 2, 3]\<close> and \<open>probs = [1 / 2]\<close>.\<close>

theorem param_shape_is_batch_shape_witness:
  "\<exists>nb. NegativeBinomial_init (vector [1, 2, 3]) (Some (vector [1 / 2])) None None = Inr nb \<and>
      param_shape nb = [3] \<and> batch_shape nb = [3]"
proof -
  define nb where "nb = \<lparr>total_count = expand (vector [1, 2, 3]) [3],
    param = Probs (expand (vector [1 / 2]) [3]), batch_shape = [3], validate_args = False,
      cached_gamma = None\<rparr>"
  have b: "broadcast_shapes (tsize (vector [1, 2, 3])) (tsize (vector [1 / 2])) = Inr [3]"
    by (simp add: tsize_vector broadcast_shapes_def)
  have i: "NegativeBinomial_init (vector [1, 2, 3]) (Some (vector [1 / 2])) None None = Inr nb"
    by (simp add: nb_def init_probs b Distribution_init_def)
  have "batch_shape nb = [3]" by (simp add: nb_def)
  with param_shape_is_batch_shape [OF i] i show ?thesis by simp
qed

subsection \<open>C10: the variance is at least the mean\<close>

text \<open>
  C10. On every instance that \<^verbatim>\<open>__init__\<close> returned and that satisfies the
  declared constraints of its stored parameters, \<open>mean\<close> and \<open>variance\<close> return
  tensors with \<open>mean \<le> variance\<close> at every index of the batch shape.
\<close>

theorem variance_ge_mean:
  assumes "NegativeBinomial_init tc pa la va = Inr nb" and "args_valid nb"
  shows "\<exists>m v. mean nu nb = Inr m \<and> variance nu nb = Inr v \<and>
     (\<forall>i \<in> set (indices (batch_shape nb)). elem m i \<le> elem v i)"
proof -
  have "elem (total_count nb) i * exp (elem (logits nu nb) i)
      \<le> elem (total_count nb) i * exp (elem (logits nu nb) i) / sigmoid (- elem (logits nu nb) i)"
    if "i \<in> set (indices (batch_shape nb))" for i
  proof -
    have "0 \<le> elem (total_count nb) i"
      using assms(2) that init_shapes(1) [OF assms(1)]
      by (simp add: args_valid_def arg_constraints_def stored_def all_elems_iff)
    then have m: "0 \<le> elem (total_count nb) i * exp (elem (logits nu nb) i)" by simp
    have s: "0 < sigmoid (- elem (logits nu nb) i)" "sigmoid (- elem (logits nu nb) i) < 1"
      by (rule sigmoid_pos, rule sigmoid_less_1)
    have "a \<le> a / b" if "0 \<le> a" "0 < b" "b < 1" for a b :: real
    proof -
      have "a * b \<le> a * 1" using that by (intro mult_left_mono) simp_all
      then show ?thesis using that by (simp add: field_simps)
    qed
    from this [OF m s] show ?thesis .
  qed
  then show ?thesis
    by (simp add: mean_Inr [OF assms(1)] variance_Inr [OF assms(1)]
        init_valid_elems [OF assms(1)])
qed

text \<open>The theorem at \<open>total_count = 10\<close> and \<open>probs = 1 / 10\<close>, validated.\<close>

theorem variance_ge_mean_witness:
  "\<exists>nb m v. NegativeBinomial_init (scalar 10) (Some (scalar (1 / 10))) None (Some True) = Inr nb \<and>
      args_valid nb \<and> mean example_numerics nb = Inr m \<and>
      variance example_numerics nb = Inr v \<and> elem m [] \<le> elem v []"
proof -
  define nb where "nb = \<lparr>total_count = expand (scalar 10) [],
    param = Probs (expand (scalar (1 / 10)) []), batch_shape = [], validate_args = True,
      cached_gamma = None\<rparr>"
  have a: "args_valid nb"
    by (simp add: nb_def args_valid_def arg_constraints_def stored_def all_elems_def tsize_expand
        elem_expand_scalar)
  have i: "NegativeBinomial_init (scalar 10) (Some (scalar (1 / 10))) None (Some True) = Inr nb"
    using a
    by (simp add: init_probs tsize_scalar broadcast_shapes_Nil Distribution_init_def)
      (simp add: nb_def)
  have k: "[] \<in> set (indices (batch_shape nb))"
    by (simp add: nb_def)
  from variance_ge_mean [OF i a, of example_numerics] k i a show ?thesis
    by blast
qed

end
